theory Spec2Isabelle
  imports Complex_Main "HOL-Library.AList"
begin

section \<open>Python values, dictionaries and exceptions\<close>

text \<open>
  The snapshots keep their records in module-level Python dictionaries and hand
  dictionaries to the framework for serialisation. The handlers only store and compare
  floats, they never compute with them: a \<open>float\<close> is a finite number, an infinity
  or a NaN. Python compares the values held in two containers by identity first and by
  \<open>==\<close> second, and a NaN is \<open>==\<close> to nothing, itself included: two NaN agree
  exactly when they are one float object. So a NaN carries the identity of its object,
  and equality of the values below is that comparison.
\<close>

datatype pyfloat = Finite real | PosInfinity | NegInfinity | NaN nat

definition is_nan :: "pyfloat \<Rightarrow> bool" where
  "is_nan f = (case f of NaN obj \<Rightarrow> True | _ \<Rightarrow> False)"

datatype pyval =
    PyNone
  | PyInt int
  | PyFloat pyfloat
  | PyStr string
  | PyList "pyval list"
  | PyDict "(string \<times> pyval) list"

text \<open>
  A Python \<open>dict\<close> keeps insertion order and has one entry per key: an association
  list. \<open>d[k] = v\<close> replaces the value of an existing key in place and appends a new key
  at the end; \<open>del d[k]\<close> removes the entry; \<open>d[k]\<close> on a missing key raises
  \<open>KeyError\<close>.
\<close>

type_synonym ('k, 'v) dict = "('k \<times> 'v) list"

datatype py_exception = HTTPException nat string | KeyError

definition dict_contains :: "('k, 'v) dict \<Rightarrow> 'k \<Rightarrow> bool" where
  "dict_contains d k = (k \<in> set (map fst d))"

definition dict_getitem :: "('k, 'v) dict \<Rightarrow> 'k \<Rightarrow> py_exception + 'v" where
  "dict_getitem d k = (case map_of d k of None \<Rightarrow> Inl KeyError | Some v \<Rightarrow> Inr v)"

definition dict_setitem :: "('k, 'v) dict \<Rightarrow> 'k \<Rightarrow> 'v \<Rightarrow> ('k, 'v) dict" where
  "dict_setitem d k v = AList.update k v d"

definition dict_delitem :: "('k, 'v) dict \<Rightarrow> 'k \<Rightarrow> ('k, 'v) dict" where
  "dict_delitem d k = AList.delete k d"

definition dict_values :: "('k, 'v) dict \<Rightarrow> 'v list" where
  "dict_values d = map snd d"

text \<open>
  \<open>a == b\<close> on dictionaries: the same number of entries, and every key of \<open>a\<close> is in
  \<open>b\<close> with an equal value. The order of the entries does not count.
\<close>

definition dict_eq :: "('k, 'v) dict \<Rightarrow> ('k, 'v) dict \<Rightarrow> bool" where
  "dict_eq a b = (length a = length b \<and> list_all (\<lambda>(k, v). map_of b k = Some v) a)"

text \<open>
  The dictionary display \<open>{k: v, **d}\<close>: the listed entries first, then the entries of
  \<open>d\<close> stored one after the other.
\<close>

definition dict_unpack :: "('k, 'v) dict \<Rightarrow> ('k, 'v) dict \<Rightarrow> ('k, 'v) dict" where
  "dict_unpack base d = foldl (\<lambda>acc (k, v). dict_setitem acc k v) base d"

text \<open>
  Two records are field-for-field identical when they have the same keys in the same
  order and every field holds the same value, where any NaN is the same value as any
  other NaN, whatever float objects hold them.
\<close>

definition is_nan_value :: "pyval \<Rightarrow> bool" where
  "is_nan_value v = (case v of PyFloat f \<Rightarrow> is_nan f | _ \<Rightarrow> False)"

definition same_value :: "pyval \<Rightarrow> pyval \<Rightarrow> bool" where
  "same_value u v = (u = v \<or> (is_nan_value u \<and> is_nan_value v))"

definition same_fields :: "(string, pyval) dict \<Rightarrow> (string, pyval) dict \<Rightarrow> bool" where
  "same_fields a b = list_all2 (\<lambda>p q. fst p = fst q \<and> same_value (snd p) (snd q)) a b"


section \<open>The boundary layer\<close>

record response =
  status_code :: nat
  content :: "pyval option"

text \<open>
  A handler returns a plain value, which the framework serialises under the route's
  status code and response model, or a \<open>Response\<close> object, which is sent as it is.
\<close>

datatype handler_return = Value pyval | Direct response

datatype response_model = NoModel | Model "string list" | ListOf "string list"

text \<open>
  Modelled from the spec: the response-serialisation layer is the web framework, which
  is not part of the repository. Its projection rule (spec section 4.1) strips every
  field that is not in the declared field set of the route's response model; a raised
  \<open>HTTPException\<close> becomes a response with its status code and its detail; a route
  declared with status 204 sends no body; any other exception is a server error.
\<close>

definition keep_fields :: "string list \<Rightarrow> (string, pyval) dict \<Rightarrow> (string, pyval) dict" where
  "keep_fields names d = List.map_filter (\<lambda>k. map_option (Pair k) (map_of d k)) names"

fun project :: "string list \<Rightarrow> pyval \<Rightarrow> pyval" where
  "project names (PyDict d) = PyDict (keep_fields names d)"
| "project names v = v"

fun apply_response_model :: "response_model \<Rightarrow> pyval \<Rightarrow> pyval" where
  "apply_response_model NoModel v = v"
| "apply_response_model (Model names) v = project names v"
| "apply_response_model (ListOf names) (PyList vs) = PyList (map (project names) vs)"
| "apply_response_model (ListOf names) v = v"

fun serialize_response ::
  "nat \<Rightarrow> response_model \<Rightarrow> py_exception + handler_return \<Rightarrow> response" where
  "serialize_response code rm (Inl (HTTPException c detail)) =
     \<lparr>status_code = c, content = Some (PyDict [(''detail'', PyStr detail)])\<rparr>"
| "serialize_response code rm (Inl KeyError) =
     \<lparr>status_code = 500, content = Some (PyStr ''Internal Server Error'')\<rparr>"
| "serialize_response code rm (Inr (Direct r)) = r"
| "serialize_response code rm (Inr (Value v)) =
     \<lparr>status_code = code,
      content = (if code = 204 then None else Some (apply_response_model rm v))\<rparr>"

fun content_keys :: "response \<Rightarrow> string list" where
  "content_keys r =
     (case content r of
        Some (PyDict d) \<Rightarrow> map fst d
      | Some (PyList vs) \<Rightarrow> concat (map (\<lambda>v. case v of PyDict d \<Rightarrow> map fst d | _ \<Rightarrow> []) vs)
      | _ \<Rightarrow> [])"


section \<open>Snapshot 12: status codes (items with a next-id counter)\<close>

record Item_12 =
  name :: string
  price :: pyfloat

definition Item_12_fields :: "string list" where
  "Item_12_fields = [''name'', ''price'']"

definition model_dump_12 :: "Item_12 \<Rightarrow> (string, pyval) dict" where
  "model_dump_12 item =
     [(''name'', PyStr (Item_12.name item)), (''price'', PyFloat (Item_12.price item))]"

record store_12 =
  items_db :: "(int, (string, pyval) dict) dict"
  item_next_id :: int

definition initial_12 :: store_12 where
  "initial_12 =
     \<lparr>items_db =
        [(1, [(''name'', PyStr ''Laptop''), (''price'', PyFloat (Finite 1200))]),
         (2, [(''name'', PyStr ''Keyboard''), (''price'', PyFloat (Finite 75))])],
      item_next_id = 3\<rparr>"

definition create_item_12 ::
  "store_12 \<Rightarrow> Item_12 \<Rightarrow> (py_exception + handler_return) \<times> store_12" where
  "create_item_12 s item =
     (let db = dict_setitem (items_db s) (item_next_id s) (model_dump_12 item);
          created_item_info =
            dict_unpack [(''id'', PyInt (item_next_id s))] (model_dump_12 item)
      in (Inr (Value (PyDict created_item_info)),
          s\<lparr>items_db := db, item_next_id := item_next_id s + 1\<rparr>))"

definition delete_item_12 ::
  "store_12 \<Rightarrow> int \<Rightarrow> (py_exception + handler_return) \<times> store_12" where
  "delete_item_12 s item_id =
     (if dict_contains (items_db s) item_id
      then (Inr (Value PyNone), s\<lparr>items_db := dict_delitem (items_db s) item_id\<rparr>)
      else (Inl (HTTPException 404 ''Item not found''), s))"

definition update_item_12 ::
  "store_12 \<Rightarrow> int \<Rightarrow> Item_12 \<Rightarrow> (py_exception + handler_return) \<times> store_12" where
  "update_item_12 s item_id item =
     (if \<not> dict_contains (items_db s) item_id
      then (Inl (HTTPException 404 ''Item not found''), s)
      else
        (case dict_getitem (items_db s) item_id of
           Inl e \<Rightarrow> (Inl e, s)
         | Inr stored \<Rightarrow>
             if dict_eq stored (model_dump_12 item)
             then (Inr (Direct \<lparr>status_code = 304, content = None\<rparr>), s)
             else
               (let s' = s\<lparr>items_db := dict_setitem (items_db s) item_id (model_dump_12 item)\<rparr>
                in (case dict_getitem (items_db s') item_id of
                      Inl e \<Rightarrow> (Inl e, s')
                    | Inr v \<Rightarrow> (Inr (Value (PyDict v)), s')))))"

text \<open>The three routes of the snapshot, as their decorators declare them.\<close>

definition post_items_12 :: "store_12 \<Rightarrow> Item_12 \<Rightarrow> response \<times> store_12" where
  "post_items_12 s item =
     (case create_item_12 s item of
        (r, s') \<Rightarrow> (serialize_response 201 (Model Item_12_fields) r, s'))"

definition delete_items_12 :: "store_12 \<Rightarrow> int \<Rightarrow> response \<times> store_12" where
  "delete_items_12 s item_id =
     (case delete_item_12 s item_id of
        (r, s') \<Rightarrow> (serialize_response 204 NoModel r, s'))"

definition put_items_12 :: "store_12 \<Rightarrow> int \<Rightarrow> Item_12 \<Rightarrow> response \<times> store_12" where
  "put_items_12 s item_id item =
     (case update_item_12 s item_id item of
        (r, s') \<Rightarrow> (serialize_response 200 (Model Item_12_fields) r, s'))"

text \<open>
  Modelled from the spec: snapshot 12 has no list route; \<open>list()\<close> returns all
  currently-live records in insertion order, as \<open>list(fake_items_db.values())\<close> does in
  snapshot 10.
\<close>

definition list_12 :: "store_12 \<Rightarrow> (string, pyval) dict list" where
  "list_12 s = dict_values (items_db s)"

text \<open>Sequences of requests against the store of snapshot 12.\<close>

datatype op_12 =
    is_Create: Create Item_12
  | is_Delete: Delete int
  | is_Update: Update int Item_12

fun step_12 :: "store_12 \<Rightarrow> op_12 \<Rightarrow> (py_exception + handler_return) \<times> store_12" where
  "step_12 s (Create item) = create_item_12 s item"
| "step_12 s (Delete item_id) = delete_item_12 s item_id"
| "step_12 s (Update item_id item) = update_item_12 s item_id item"

fun run_12 :: "store_12 \<Rightarrow> op_12 list \<Rightarrow> store_12" where
  "run_12 s [] = s"
| "run_12 s (x # xs) = run_12 (snd (step_12 s x)) xs"

text \<open>
  The identifier a create assigned is the \<open>id\<close> entry of the dictionary the handler
  returns (\<open>created_item_info\<close>).
\<close>

definition returned_id :: "py_exception + handler_return \<Rightarrow> int list" where
  "returned_id r =
     (case r of
        Inr (Value (PyDict d)) \<Rightarrow>
          (case map_of d ''id'' of Some (PyInt i) \<Rightarrow> [i] | _ \<Rightarrow> [])
      | _ \<Rightarrow> [])"

fun created_ids :: "store_12 \<Rightarrow> op_12 list \<Rightarrow> int list" where
  "created_ids s [] = []"
| "created_ids s (x # xs) =
     (if is_Create x then returned_id (fst (step_12 s x)) else [])
       @ created_ids (snd (step_12 s x)) xs"

text \<open>The number of requests of one kind that succeeded (raised no exception).\<close>

definition succeeded :: "py_exception + handler_return \<Rightarrow> bool" where
  "succeeded r = (case r of Inl e \<Rightarrow> False | Inr v \<Rightarrow> True)"

fun successes :: "(op_12 \<Rightarrow> bool) \<Rightarrow> store_12 \<Rightarrow> op_12 list \<Rightarrow> nat" where
  "successes P s [] = 0"
| "successes P s (x # xs) =
     (if P x \<and> succeeded (fst (step_12 s x)) then 1 else 0) + successes P (snd (step_12 s x)) xs"


section \<open>Snapshot 06: validated items (identifier from the size of the store)\<close>

text \<open>
  The handler receives the item after validation (the field constraints and the
  \<open>name\<close> validator have run in the framework); the record is that validated value.
\<close>

record Item_06 =
  name :: string
  description :: "string option"
  price :: pyfloat
  tax :: "pyfloat option"
  tags :: "string list"

definition model_dump_06 :: "Item_06 \<Rightarrow> (string, pyval) dict" where
  "model_dump_06 item =
     [(''name'', PyStr (Item_06.name item)),
      (''description'', (case description item of None \<Rightarrow> PyNone | Some d \<Rightarrow> PyStr d)),
      (''price'', PyFloat (Item_06.price item)),
      (''tax'', (case tax item of None \<Rightarrow> PyNone | Some t \<Rightarrow> PyFloat t)),
      (''tags'', PyList (map PyStr (tags item)))]"

type_synonym store_06 = "(int, (string, pyval) dict) dict"

definition initial_06 :: store_06 where
  "initial_06 = []"

definition create_item_06 ::
  "store_06 \<Rightarrow> Item_06 \<Rightarrow> (py_exception + handler_return) \<times> store_06" where
  "create_item_06 db item =
     (let item_id = int (length db) + 1;
          db' = dict_setitem db item_id (model_dump_06 item)
      in (case dict_getitem db' item_id of
            Inl e \<Rightarrow> (Inl e, db')
          | Inr v \<Rightarrow>
              (Inr (Value (PyDict (dict_unpack [(''item_id'', PyInt item_id)] v))), db')))"

definition read_item_06 ::
  "store_06 \<Rightarrow> int \<Rightarrow> (py_exception + handler_return) \<times> store_06" where
  "read_item_06 db item_id =
     (if \<not> dict_contains db item_id
      then (Inl (HTTPException 404 ''Item not found''), db)
      else
        (case dict_getitem db item_id of
           Inl e \<Rightarrow> (Inl e, db)
         | Inr v \<Rightarrow>
             (Inr (Value (PyDict (dict_unpack [(''item_id'', PyInt item_id)] v))), db)))"

definition post_items_06 :: "store_06 \<Rightarrow> Item_06 \<Rightarrow> response \<times> store_06" where
  "post_items_06 db item =
     (case create_item_06 db item of (r, db') \<Rightarrow> (serialize_response 201 NoModel r, db'))"

definition get_item_06 :: "store_06 \<Rightarrow> int \<Rightarrow> response \<times> store_06" where
  "get_item_06 db item_id =
     (case read_item_06 db item_id of (r, db') \<Rightarrow> (serialize_response 200 NoModel r, db'))"


section \<open>Snapshot 10: response models (users keyed by name, internal items)\<close>

record UserIn =
  username :: string
  password :: string
  email :: string
  full_name :: "string option"

definition UserOut_fields :: "string list" where
  "UserOut_fields = [''username'', ''email'', ''full_name'']"

record ItemInternal =
  name :: string
  price :: pyfloat
  owner_id :: int
  secret_code :: string

definition ItemPublic_fields :: "string list" where
  "ItemPublic_fields = [''name'', ''price'']"

text \<open>The fields that the snapshot declares on its stored models and on no output model.\<close>

definition internal_only_fields :: "string list" where
  "internal_only_fields = [''password'', ''owner_id'', ''secret_code'']"

text \<open>
  The handlers of this snapshot return the stored model objects themselves; the
  framework reads their attributes, every declared field of the object.
\<close>

definition UserIn_attributes :: "UserIn \<Rightarrow> (string, pyval) dict" where
  "UserIn_attributes u =
     [(''username'', PyStr (username u)),
      (''password'', PyStr (password u)),
      (''email'', PyStr (email u)),
      (''full_name'', (case full_name u of None \<Rightarrow> PyNone | Some n \<Rightarrow> PyStr n))]"

definition ItemInternal_attributes :: "ItemInternal \<Rightarrow> (string, pyval) dict" where
  "ItemInternal_attributes i =
     [(''name'', PyStr (ItemInternal.name i)),
      (''price'', PyFloat (ItemInternal.price i)),
      (''owner_id'', PyInt (owner_id i)),
      (''secret_code'', PyStr (secret_code i))]"

record state_10 =
  fake_users_db :: "(string, UserIn) dict"
  fake_items_db :: "(int, ItemInternal) dict"

definition initial_10 :: state_10 where
  "initial_10 =
     \<lparr>fake_users_db = [],
      fake_items_db =
        [(1, \<lparr>ItemInternal.name = ''Keyboard'', price = Finite 75, owner_id = 1, secret_code = ''abc''\<rparr>),
         (2, \<lparr>ItemInternal.name = ''Mouse'', price = Finite 25.5, owner_id = 1, secret_code = ''def''\<rparr>),
         (3, \<lparr>ItemInternal.name = ''Monitor'', price = Finite 300, owner_id = 2, secret_code = ''ghi''\<rparr>)]\<rparr>"

definition create_user :: "state_10 \<Rightarrow> UserIn \<Rightarrow> (py_exception + UserIn) \<times> state_10" where
  "create_user s user =
     (Inr user, s\<lparr>fake_users_db := dict_setitem (fake_users_db s) (username user) user\<rparr>)"

definition read_user :: "state_10 \<Rightarrow> string \<Rightarrow> (py_exception + UserIn) \<times> state_10" where
  "read_user s uname =
     (if \<not> dict_contains (fake_users_db s) uname
      then (Inl (HTTPException 404 ''User not found''), s)
      else (dict_getitem (fake_users_db s) uname, s))"

definition read_items :: "state_10 \<Rightarrow> (py_exception + ItemInternal list) \<times> state_10" where
  "read_items s = (Inr (dict_values (fake_items_db s)), s)"

definition read_single_item ::
  "state_10 \<Rightarrow> int \<Rightarrow> (py_exception + ItemInternal) \<times> state_10" where
  "read_single_item s item_id =
     (if \<not> dict_contains (fake_items_db s) item_id
      then (Inl (HTTPException 404 ''Item not found''), s)
      else (dict_getitem (fake_items_db s) item_id, s))"

text \<open>The four routes, with the status code and response model of their decorators.\<close>

definition user_value :: "UserIn \<Rightarrow> handler_return" where
  "user_value u = Value (PyDict (UserIn_attributes u))"

definition item_value :: "ItemInternal \<Rightarrow> handler_return" where
  "item_value i = Value (PyDict (ItemInternal_attributes i))"

definition items_value :: "ItemInternal list \<Rightarrow> handler_return" where
  "items_value xs = Value (PyList (map (\<lambda>i. PyDict (ItemInternal_attributes i)) xs))"

definition post_users_10 :: "state_10 \<Rightarrow> UserIn \<Rightarrow> response \<times> state_10" where
  "post_users_10 s user =
     (case create_user s user of
        (r, s') \<Rightarrow> (serialize_response 201 (Model UserOut_fields) (map_sum id user_value r), s'))"

definition get_user_10 :: "state_10 \<Rightarrow> string \<Rightarrow> response \<times> state_10" where
  "get_user_10 s uname =
     (case read_user s uname of
        (r, s') \<Rightarrow> (serialize_response 200 (Model UserOut_fields) (map_sum id user_value r), s'))"

definition get_items_10 :: "state_10 \<Rightarrow> response \<times> state_10" where
  "get_items_10 s =
     (case read_items s of
        (r, s') \<Rightarrow>
          (serialize_response 200 (ListOf ItemPublic_fields) (map_sum id items_value r), s'))"

definition get_item_10 :: "state_10 \<Rightarrow> int \<Rightarrow> response \<times> state_10" where
  "get_item_10 s item_id =
     (case read_single_item s item_id of
        (r, s') \<Rightarrow>
          (serialize_response 200 (Model ItemPublic_fields) (map_sum id item_value r), s'))"


section \<open>The store invariant of snapshot 12\<close>

text \<open>
  Every key is stored once, the counter is positive and every key lies below the
  counter: the next create stores under a fresh key.
\<close>

definition inv_12 :: "store_12 \<Rightarrow> bool" where
  "inv_12 s \<longleftrightarrow>
     distinct (map fst (items_db s)) \<and> 0 < item_next_id s \<and>
     (\<forall>k \<in> fst ` set (items_db s). k < item_next_id s)"


section \<open>Dictionaries: basic facts\<close>

lemma dict_contains_map_of: "dict_contains d k \<longleftrightarrow> map_of d k \<noteq> None"
  by (simp add: dict_contains_def map_of_eq_None_iff)

lemma dict_getitem_contains:
  "dict_contains d k \<Longrightarrow> \<exists>v. dict_getitem d k = Inr v \<and> map_of d k = Some v"
  by (auto simp: dict_contains_map_of dict_getitem_def)

lemma dict_getitem_setitem: "dict_getitem (dict_setitem d k v) k = Inr v"
  by (simp add: dict_getitem_def dict_setitem_def update_conv')

lemma keys_setitem: "fst ` set (dict_setitem d k v) = insert k (fst ` set d)"
  by (simp add: dict_setitem_def dom_update)

lemma set_delitem: "p \<in> set (dict_delitem d k) \<Longrightarrow> p \<in> set d"
  by (simp add: dict_delitem_def AList.delete_eq)

lemma set_setitem: "p \<in> set (dict_setitem d k v) \<Longrightarrow> fst p = k \<or> p \<in> set d"
  by (induction d) (auto simp: dict_setitem_def split: if_splits)

lemma delitem_absent: "k \<notin> fst ` set d \<Longrightarrow> dict_delitem d k = d"
  by (induction d) (auto simp: dict_delitem_def AList.delete_eq)

lemma distinct_setitem: "distinct (map fst d) \<Longrightarrow> distinct (map fst (dict_setitem d k v))"
  by (simp add: dict_setitem_def distinct_update)

lemma distinct_delitem: "distinct (map fst d) \<Longrightarrow> distinct (map fst (dict_delitem d k))"
  by (simp add: dict_delitem_def distinct_delete)

lemma length_setitem_new:
  "k \<notin> fst ` set d \<Longrightarrow> length (dict_setitem d k v) = Suc (length d)"
  by (induction d) (auto simp: dict_setitem_def)

lemma length_setitem_old:
  "k \<in> fst ` set d \<Longrightarrow> length (dict_setitem d k v) = length d"
  by (induction d) (auto simp: dict_setitem_def)

lemma length_delitem:
  "distinct (map fst d) \<Longrightarrow> k \<in> fst ` set d \<Longrightarrow> Suc (length (dict_delitem d k)) = length d"
proof (induction d)
  case Nil
  then show ?case by simp
next
  case (Cons p d)
  show ?case
  proof (cases "fst p = k")
    case True
    then have "k \<notin> fst ` set d" using Cons.prems(1) by auto
    then have "dict_delitem d k = d" by (rule delitem_absent)
    then show ?thesis using True by (simp add: dict_delitem_def AList.delete_eq case_prod_unfold)
  next
    case False
    then have "k \<in> fst ` set d" using Cons.prems(2) by auto
    then have "Suc (length (dict_delitem d k)) = length d" using Cons by simp
    then show ?thesis using False by (simp add: dict_delitem_def AList.delete_eq case_prod_unfold)
  qed
qed

lemma unpack_id_12:
  "dict_unpack [(''id'', PyInt n)] (model_dump_12 item) = (''id'', PyInt n) # model_dump_12 item"
  by (simp add: dict_unpack_def model_dump_12_def dict_setitem_def)

lemma unpack_item_id_06:
  "dict_unpack [(''item_id'', PyInt n)] (model_dump_06 item) = (''item_id'', PyInt n) # model_dump_06 item"
  by (simp add: dict_unpack_def model_dump_06_def dict_setitem_def)

lemma keep_fields_12:
  "keep_fields Item_12_fields ((''id'', PyInt n) # model_dump_12 item) = model_dump_12 item"
  by (simp add: keep_fields_def Item_12_fields_def model_dump_12_def List.map_filter_simps)


section \<open>Snapshot 12: the invariant and the identifiers\<close>

lemma inv_12_initial: "inv_12 initial_12"
  by (simp add: inv_12_def initial_12_def)

lemma next_id_step: "item_next_id (snd (step_12 s x)) = item_next_id s + (if is_Create x then 1 else 0)"
  by (cases x) (auto simp: create_item_12_def delete_item_12_def update_item_12_def Let_def
      split: sum.splits)

lemma inv_12_step: "inv_12 s \<Longrightarrow> inv_12 (snd (step_12 s x))"
proof (cases x)
  case (Create item)
  assume "inv_12 s"
  then show ?thesis using Create
    by (auto simp: inv_12_def create_item_12_def Let_def distinct_setitem keys_setitem)
next
  case (Delete i)
  assume "inv_12 s"
  then show ?thesis using Delete
    by (auto simp: inv_12_def delete_item_12_def distinct_delitem dest: set_delitem)
next
  case (Update i item)
  assume "inv_12 s"
  then show ?thesis using Update
    by (auto simp: inv_12_def update_item_12_def Let_def distinct_setitem
        dict_contains_def split: sum.splits dest!: set_setitem)
qed

lemma inv_12_run: "inv_12 s \<Longrightarrow> inv_12 (run_12 s xs)"
  by (induction xs arbitrary: s) (simp_all add: inv_12_step)

lemma returned_id_create: "returned_id (fst (create_item_12 s item)) = [item_next_id s]"
  by (simp add: create_item_12_def returned_id_def Let_def unpack_id_12)

lemma created_ids_bounds:
  "\<forall>i \<in> set (created_ids s xs). item_next_id s \<le> i"
proof (induction xs arbitrary: s)
  case Nil
  show ?case by simp
next
  case (Cons x xs)
  have "\<forall>i \<in> set (created_ids (snd (step_12 s x)) xs). item_next_id s \<le> i"
    using Cons[of "snd (step_12 s x)"] by (auto simp: next_id_step split: if_splits)
  then show ?case
    by (cases x) (auto simp: returned_id_create)
qed

lemma created_ids_sorted: "sorted_wrt (<) (created_ids s xs)"
proof (induction xs arbitrary: s)
  case Nil
  show ?case by simp
next
  case (Cons x xs)
  show ?case
  proof (cases x)
    case (Create item)
    have "\<forall>i \<in> set (created_ids (snd (step_12 s x)) xs). item_next_id s + 1 \<le> i"
      using created_ids_bounds[of "snd (step_12 s x)" xs] next_id_step[of s x] Create by simp
    then show ?thesis using Cons[of "snd (step_12 s x)"] Create
      by (auto simp: returned_id_create)
  next
    case (Delete i)
    then show ?thesis using Cons[of "snd (step_12 s x)"] by simp
  next
    case (Update i item)
    then show ?thesis using Cons[of "snd (step_12 s x)"] by simp
  qed
qed


section \<open>C1: the response of a create\<close>

lemma post_items_12_response:
  "fst (post_items_12 s item) =
     \<lparr>status_code = 201, content = Some (PyDict (model_dump_12 item))\<rparr>"
  by (simp add: post_items_12_def create_item_12_def Let_def unpack_id_12 keep_fields_12)

lemma post_items_06_response:
  "fst (post_items_06 db item) =
     \<lparr>status_code = 201,
      content = Some (PyDict ((''item_id'', PyInt (int (length db) + 1)) # model_dump_06 item))\<rparr>"
  by (simp add: post_items_06_def create_item_06_def Let_def dict_getitem_setitem
      unpack_item_id_06)

text \<open>
  C1, as stated, fails on snapshot 12: the handler computes the assigned identifier and
  puts it in the dictionary it returns, but the route declares \<open>response_model=Item\<close>,
  so the body that leaves the boundary is the projected record alone, without an
  \<open>id\<close> entry (the source says so in a comment of \<open>create_item\<close>). Creating
  \<open>{name: Keyboard, price: 75.0}\<close> in the store of snapshot 12 assigns 3 and
  answers 201 with \<open>{name: Keyboard, price: 75.0}\<close>.
\<close>

theorem create_response_counterexample:
  "returned_id (fst (create_item_12 initial_12 \<lparr>Item_12.name = ''Keyboard'', price = Finite 75\<rparr>)) = [3] \<and>
   fst (post_items_12 initial_12 \<lparr>Item_12.name = ''Keyboard'', price = Finite 75\<rparr>) =
     \<lparr>status_code = 201,
      content = Some (PyDict [(''name'', PyStr ''Keyboard''), (''price'', PyFloat (Finite 75))])\<rparr> \<and>
   ''id'' \<notin> set (content_keys (fst (post_items_12 initial_12 \<lparr>Item_12.name = ''Keyboard'', price = Finite 75\<rparr>)))"
  by (simp add: post_items_12_def create_item_12_def returned_id_def initial_12_def Let_def
      dict_unpack_def dict_setitem_def model_dump_12_def keep_fields_def Item_12_fields_def
      List.map_filter_simps)

text \<open>
  C1, amended: every create answers with status 201. In snapshot 12 the body is the
  projected record (name and price) and the assigned identifier, the value of the
  counter before the call, is only in the handler's return value. In snapshot 06, which
  declares no response model, the body is the assigned identifier (one more than the
  number of stored records, under the key \<open>item_id\<close>) followed by the stored record.
\<close>

theorem create_response:
  "fst (post_items_12 s item) =
     \<lparr>status_code = 201, content = Some (PyDict (model_dump_12 item))\<rparr> \<and>
   returned_id (fst (create_item_12 s item)) = [item_next_id s] \<and>
   fst (post_items_06 db item') =
     \<lparr>status_code = 201,
      content =
        Some (PyDict ((''item_id'', PyInt (int (length db) + 1)) # model_dump_06 item'))\<rparr>"
  by (simp only: post_items_12_response returned_id_create post_items_06_response)

theorem create_response_witness:
  "fst (post_items_12 initial_12 \<lparr>Item_12.name = ''Mouse'', price = Finite 25.5\<rparr>) =
     \<lparr>status_code = 201,
      content = Some (PyDict [(''name'', PyStr ''Mouse''), (''price'', PyFloat (Finite 25.5))])\<rparr> \<and>
   returned_id (fst (create_item_12 initial_12 \<lparr>Item_12.name = ''Mouse'', price = Finite 25.5\<rparr>)) = [3] \<and>
   fst (post_items_06 initial_06
          \<lparr>Item_06.name = ''Keyboard'', description = None, price = Finite 75, tax = None, tags = []\<rparr>) =
     \<lparr>status_code = 201,
      content =
        Some (PyDict [(''item_id'', PyInt 1), (''name'', PyStr ''Keyboard''),
                      (''description'', PyNone), (''price'', PyFloat (Finite 75)), (''tax'', PyNone),
                      (''tags'', PyList [])])\<rparr>"
  using create_response [of initial_12 "\<lparr>Item_12.name = ''Mouse'', price = Finite 25.5\<rparr>" initial_06
      "\<lparr>Item_06.name = ''Keyboard'', description = None, price = Finite 75, tax = None, tags = []\<rparr>"]
  by (simp add: initial_12_def initial_06_def model_dump_12_def model_dump_06_def)


section \<open>C2: identifiers are assigned in increasing order and never reused\<close>

lemma created_ids_distinct: "distinct (created_ids s xs)"
  using created_ids_sorted[of s xs] by (simp add: strict_sorted_iff)

lemma created_ids_positive:
  assumes "inv_12 s" and "i \<in> set (created_ids s xs)"
  shows "0 < i"
proof -
  have "item_next_id s \<le> i" using created_ids_bounds assms(2) by blast
  moreover have "0 < item_next_id s" using assms(1) by (simp add: inv_12_def)
  ultimately show ?thesis by simp
qed

lemma deleted_id_not_reused:
  assumes "inv_12 s" and "dict_contains (items_db s) i"
  shows "i \<notin> set (created_ids (snd (delete_item_12 s i)) xs)"
proof
  assume a: "i \<in> set (created_ids (snd (delete_item_12 s i)) xs)"
  have "item_next_id (snd (delete_item_12 s i)) = item_next_id s"
    using next_id_step[of s "Delete i"] by simp
  then have "item_next_id s \<le> i" using created_ids_bounds a by metis
  moreover have "i < item_next_id s"
    using assms by (auto simp: inv_12_def dict_contains_def)
  ultimately show False by simp
qed

text \<open>
  C2: for every sequence of requests against the store of snapshot 12, started from its
  initial state, the identifiers that the creates assign are strictly increasing,
  without repeats and positive; and an identifier that is in the store at some point of
  such a sequence, and is deleted there, is assigned by no later create, whatever
  requests follow.
\<close>

theorem created_ids_increasing:
  "sorted_wrt (<) (created_ids initial_12 ops) \<and>
   distinct (created_ids initial_12 ops) \<and>
   (\<forall>i \<in> set (created_ids initial_12 ops). 0 < i) \<and>
   (\<forall>before i after.
      dict_contains (items_db (run_12 initial_12 before)) i \<longrightarrow>
      i \<notin> set (created_ids (snd (delete_item_12 (run_12 initial_12 before) i)) after))"
proof -
  have "\<forall>i \<in> set (created_ids initial_12 ops). 0 < i"
    using created_ids_positive[OF inv_12_initial] by blast
  moreover have "\<forall>before i after.
      dict_contains (items_db (run_12 initial_12 before)) i \<longrightarrow>
      i \<notin> set (created_ids (snd (delete_item_12 (run_12 initial_12 before) i)) after)"
    using deleted_id_not_reused[OF inv_12_run[OF inv_12_initial]] by blast
  ultimately show ?thesis
    using created_ids_sorted created_ids_distinct by blast
qed

text \<open>The definitions that evaluate a concrete run of snapshot 12.\<close>

lemmas eval_12 =
  create_item_12_def delete_item_12_def update_item_12_def initial_12_def Let_def
  returned_id_def succeeded_def dict_unpack_def dict_setitem_def dict_delitem_def
  dict_contains_def dict_getitem_def dict_eq_def dict_values_def model_dump_12_def

theorem created_ids_increasing_witness:
  "created_ids initial_12
     [Create \<lparr>Item_12.name = ''Monitor'', price = Finite 300\<rparr>, Delete 3,
      Create \<lparr>Item_12.name = ''Mouse'', price = Finite 25.5\<rparr>] = [3, 4] \<and>
   sorted_wrt (<) (created_ids initial_12
     [Create \<lparr>Item_12.name = ''Monitor'', price = Finite 300\<rparr>, Delete 3,
      Create \<lparr>Item_12.name = ''Mouse'', price = Finite 25.5\<rparr>]) \<and>
   dict_contains
     (items_db (run_12 initial_12 [Create \<lparr>Item_12.name = ''Monitor'', price = Finite 300\<rparr>])) 3 \<and>
   3 \<notin> set (created_ids
     (snd (delete_item_12
        (run_12 initial_12 [Create \<lparr>Item_12.name = ''Monitor'', price = Finite 300\<rparr>]) 3))
     [Create \<lparr>Item_12.name = ''Mouse'', price = Finite 25.5\<rparr>])"
proof -
  let ?a = "\<lparr>Item_12.name = ''Monitor'', price = Finite 300\<rparr>"
  let ?b = "\<lparr>Item_12.name = ''Mouse'', price = Finite 25.5\<rparr>"
  have present: "dict_contains (items_db (run_12 initial_12 [Create ?a])) 3"
    by (simp add: eval_12)
  have ids: "created_ids initial_12 [Create ?a, Delete 3, Create ?b] = [3, 4]"
    by (simp add: eval_12)
  have "3 \<notin> set (created_ids (snd (delete_item_12 (run_12 initial_12 [Create ?a]) 3))
      [Create ?b])"
    using created_ids_increasing [of "[Create ?a, Delete 3, Create ?b]"] present by blast
  moreover have "sorted_wrt (<) (created_ids initial_12 [Create ?a, Delete 3, Create ?b])"
    using created_ids_increasing [of "[Create ?a, Delete 3, Create ?b]"] by blast
  ultimately show ?thesis using present ids by simp
qed


section \<open>C3: the number of listed records\<close>

lemma length_step:
  assumes "inv_12 s"
  shows "length (items_db (snd (step_12 s x))) +
           (if is_Delete x \<and> succeeded (fst (step_12 s x)) then 1 else 0) =
         length (items_db s) + (if is_Create x \<and> succeeded (fst (step_12 s x)) then 1 else 0)"
proof (cases x)
  case (Create item)
  have "item_next_id s \<notin> fst ` set (items_db s)"
    using assms by (auto simp: inv_12_def)
  then show ?thesis using Create
    by (simp add: create_item_12_def Let_def length_setitem_new succeeded_def)
next
  case (Delete i)
  show ?thesis
  proof (cases "dict_contains (items_db s) i")
    case True
    then have "Suc (length (dict_delitem (items_db s) i)) = length (items_db s)"
      using assms by (simp add: length_delitem inv_12_def dict_contains_def)
    then show ?thesis using Delete True
      by (simp add: delete_item_12_def succeeded_def)
  next
    case False
    then show ?thesis using Delete by (simp add: delete_item_12_def succeeded_def)
  qed
next
  case (Update i item)
  show ?thesis
  proof (cases "dict_contains (items_db s) i")
    case True
    then have "length (dict_setitem (items_db s) i (model_dump_12 item)) = length (items_db s)"
      by (simp add: length_setitem_old dict_contains_def)
    then show ?thesis using Update
      by (auto simp: update_item_12_def Let_def split: sum.splits)
  next
    case False
    then show ?thesis using Update by (simp add: update_item_12_def)
  qed
qed

lemma length_run:
  "inv_12 s \<Longrightarrow>
   length (list_12 (run_12 s xs)) + successes is_Delete s xs =
   length (list_12 s) + successes is_Create s xs"
proof (induction xs arbitrary: s)
  case Nil
  show ?case by simp
next
  case (Cons x xs)
  have "length (list_12 (run_12 (snd (step_12 s x)) xs)) + successes is_Delete (snd (step_12 s x)) xs =
        length (list_12 (snd (step_12 s x))) + successes is_Create (snd (step_12 s x)) xs"
    using Cons.IH[OF inv_12_step[OF Cons.prems]] .
  moreover have "length (list_12 (snd (step_12 s x))) +
           (if is_Delete x \<and> succeeded (fst (step_12 s x)) then 1 else 0) =
         length (list_12 s) + (if is_Create x \<and> succeeded (fst (step_12 s x)) then 1 else 0)"
    using length_step[OF Cons.prems, of x] by (simp add: list_12_def dict_values_def)
  ultimately show ?case by (simp split: if_splits)
qed

lemma creates_succeed: "successes is_Create s xs = length (filter is_Create xs)"
proof (induction xs arbitrary: s)
  case Nil
  show ?case by simp
next
  case (Cons x xs)
  then show ?case
    by (cases x) (simp_all add: create_item_12_def Let_def succeeded_def)
qed

text \<open>
  C3, as stated, fails on snapshot 12, whose store starts with two seeded records: after
  one create and one successful delete the list has two records, not none.
\<close>

theorem list_length_counterexample:
  "length (list_12 (run_12 initial_12
      [Create \<lparr>Item_12.name = ''Monitor'', price = Finite 300\<rparr>, Delete 1])) = 2 \<and>
   successes is_Create initial_12
      [Create \<lparr>Item_12.name = ''Monitor'', price = Finite 300\<rparr>, Delete 1] = 1 \<and>
   successes is_Delete initial_12
      [Create \<lparr>Item_12.name = ''Monitor'', price = Finite 300\<rparr>, Delete 1] = 1 \<and>
   int (length (list_12 (run_12 initial_12
      [Create \<lparr>Item_12.name = ''Monitor'', price = Finite 300\<rparr>, Delete 1]))) \<noteq>
   int (successes is_Create initial_12
      [Create \<lparr>Item_12.name = ''Monitor'', price = Finite 300\<rparr>, Delete 1]) -
   int (successes is_Delete initial_12
      [Create \<lparr>Item_12.name = ''Monitor'', price = Finite 300\<rparr>, Delete 1])"
  by (simp add: eval_12 list_12_def)

text \<open>
  C3, amended: at every point of every sequence of requests against the store of
  snapshot 12, the number of listed records is the number of seeded records (two) plus
  the number of creates so far (every create succeeds) minus the number of successful
  deletes so far.
\<close>

theorem list_length:
  "int (length (list_12 (run_12 initial_12 ops))) =
     2 + int (successes is_Create initial_12 ops) - int (successes is_Delete initial_12 ops) \<and>
   successes is_Create initial_12 ops = length (filter is_Create ops)"
proof -
  have "length (list_12 (run_12 initial_12 ops)) + successes is_Delete initial_12 ops =
        length (list_12 initial_12) + successes is_Create initial_12 ops"
    using length_run[OF inv_12_initial] .
  moreover have "length (list_12 initial_12) = 2"
    by (simp add: list_12_def dict_values_def initial_12_def)
  ultimately show ?thesis using creates_succeed[of initial_12 ops] by simp
qed

theorem list_length_witness:
  "length (list_12 (run_12 initial_12
      [Create \<lparr>Item_12.name = ''Monitor'', price = Finite 300\<rparr>, Delete 1, Delete 7])) = 2 \<and>
   successes is_Create initial_12
      [Create \<lparr>Item_12.name = ''Monitor'', price = Finite 300\<rparr>, Delete 1, Delete 7] = 1 \<and>
   successes is_Delete initial_12
      [Create \<lparr>Item_12.name = ''Monitor'', price = Finite 300\<rparr>, Delete 1, Delete 7] = 1"
proof -
  let ?ops = "[Create \<lparr>Item_12.name = ''Monitor'', price = Finite 300\<rparr>, Delete 1, Delete 7]"
  have d: "successes is_Delete initial_12 ?ops = 1"
    by (simp add: eval_12)
  have "int (length (list_12 (run_12 initial_12 ?ops))) =
     2 + int (successes is_Create initial_12 ?ops) - int (successes is_Delete initial_12 ?ops)"
    and c: "successes is_Create initial_12 ?ops = length (filter is_Create ?ops)"
    using list_length [of ?ops] by blast+
  then show ?thesis using d by simp
qed


section \<open>C4: not found exactly when the identifier is absent, and then no effect\<close>

lemma read_item_06_absent:
  "\<not> dict_contains db i \<Longrightarrow>
   read_item_06 db i = (Inl (HTTPException 404 ''Item not found''), db)"
  by (simp add: read_item_06_def)

lemma read_item_06_present:
  "dict_contains db i \<Longrightarrow> succeeded (fst (read_item_06 db i)) \<and> snd (read_item_06 db i) = db"
  using dict_getitem_contains[of db i]
  by (auto simp: read_item_06_def succeeded_def)

lemma delete_item_12_absent:
  "\<not> dict_contains (items_db s) i \<Longrightarrow>
   delete_item_12 s i = (Inl (HTTPException 404 ''Item not found''), s)"
  by (simp add: delete_item_12_def)

lemma delete_item_12_present:
  "dict_contains (items_db s) i \<Longrightarrow> succeeded (fst (delete_item_12 s i))"
  by (simp add: delete_item_12_def succeeded_def)

lemma update_item_12_absent:
  "\<not> dict_contains (items_db s) i \<Longrightarrow>
   update_item_12 s i item = (Inl (HTTPException 404 ''Item not found''), s)"
  by (simp add: update_item_12_def)

lemma update_item_12_present:
  "dict_contains (items_db s) i \<Longrightarrow> succeeded (fst (update_item_12 s i item))"
  using dict_getitem_contains[of "items_db s" i]
  by (auto simp: update_item_12_def succeeded_def Let_def dict_getitem_setitem)

text \<open>
  C4: each of read (snapshot 06), update and delete (snapshot 12) raises exactly when the
  identifier is not a key of the store; what it raises is the 404 exception
  \<open>Item not found\<close>; and the call that raises returns the store it was given, the
  mapping and the counter alike.
\<close>

theorem not_found_iff_absent:
  "(succeeded (fst (read_item_06 db i)) \<longleftrightarrow> dict_contains db i) \<and>
   (succeeded (fst (update_item_12 s i item)) \<longleftrightarrow> dict_contains (items_db s) i) \<and>
   (succeeded (fst (delete_item_12 s i)) \<longleftrightarrow> dict_contains (items_db s) i) \<and>
   (\<not> succeeded (fst (read_item_06 db i)) \<longrightarrow>
      read_item_06 db i = (Inl (HTTPException 404 ''Item not found''), db)) \<and>
   (\<not> succeeded (fst (update_item_12 s i item)) \<longrightarrow>
      update_item_12 s i item = (Inl (HTTPException 404 ''Item not found''), s)) \<and>
   (\<not> succeeded (fst (delete_item_12 s i)) \<longrightarrow>
      delete_item_12 s i = (Inl (HTTPException 404 ''Item not found''), s))"
proof -
  have r: "succeeded (fst (read_item_06 db i)) \<longleftrightarrow> dict_contains db i"
    by (cases "dict_contains db i")
      (simp add: read_item_06_present, simp add: read_item_06_absent succeeded_def)
  have u: "succeeded (fst (update_item_12 s i item)) \<longleftrightarrow> dict_contains (items_db s) i"
    by (cases "dict_contains (items_db s) i")
      (simp add: update_item_12_present, simp add: update_item_12_absent succeeded_def)
  have d: "succeeded (fst (delete_item_12 s i)) \<longleftrightarrow> dict_contains (items_db s) i"
    by (cases "dict_contains (items_db s) i")
      (simp add: delete_item_12_present, simp add: delete_item_12_absent succeeded_def)
  show ?thesis
    using r u d read_item_06_absent[of db i] update_item_12_absent[of s i item]
      delete_item_12_absent[of s i]
    by blast
qed

theorem not_found_iff_absent_witness:
  "\<not> succeeded (fst (read_item_06 initial_06 7)) \<and>
   read_item_06 initial_06 7 = (Inl (HTTPException 404 ''Item not found''), initial_06) \<and>
   \<not> succeeded (fst (update_item_12 initial_12 7 \<lparr>Item_12.name = ''Mouse'', price = Finite 25.5\<rparr>)) \<and>
   update_item_12 initial_12 7 \<lparr>Item_12.name = ''Mouse'', price = Finite 25.5\<rparr> =
     (Inl (HTTPException 404 ''Item not found''), initial_12) \<and>
   \<not> succeeded (fst (delete_item_12 initial_12 7)) \<and>
   delete_item_12 initial_12 7 = (Inl (HTTPException 404 ''Item not found''), initial_12) \<and>
   succeeded (fst (delete_item_12 initial_12 2))"
proof -
  have a: "\<not> dict_contains initial_06 7" "\<not> dict_contains (items_db initial_12) 7"
    "dict_contains (items_db initial_12) 2"
    by (simp_all add: dict_contains_def initial_06_def initial_12_def)
  show ?thesis
    using a not_found_iff_absent [of initial_06 7 initial_12
        "\<lparr>Item_12.name = ''Mouse'', price = Finite 25.5\<rparr>"]
      not_found_iff_absent [of initial_06 2 initial_12
        "\<lparr>Item_12.name = ''Mouse'', price = Finite 25.5\<rparr>"]
    by blast
qed


section \<open>C5: update replaces the whole record\<close>

lemma dict_eq_dumps_12:
  "dict_eq (model_dump_12 x) (model_dump_12 y) \<Longrightarrow> model_dump_12 x = model_dump_12 y"
  by (simp add: dict_eq_def model_dump_12_def)

lemma set_setitem_cases: "p \<in> set (dict_setitem d k v) \<Longrightarrow> p = (k, v) \<or> p \<in> set d"
  by (induction d) (auto simp: dict_setitem_def split: if_splits)

lemma stored_dumps_initial:
  "\<forall>p \<in> set (items_db initial_12). \<exists>item. snd p = model_dump_12 item"
proof -
  have "[(''name'', PyStr ''Laptop''), (''price'', PyFloat (Finite 1200))] =
        model_dump_12 \<lparr>Item_12.name = ''Laptop'', price = Finite 1200\<rparr>"
    and "[(''name'', PyStr ''Keyboard''), (''price'', PyFloat (Finite 75))] =
        model_dump_12 \<lparr>Item_12.name = ''Keyboard'', price = Finite 75\<rparr>"
    by (simp_all add: model_dump_12_def)
  then show ?thesis by (auto simp: initial_12_def)
qed

lemma stored_dumps_step:
  assumes "\<forall>p \<in> set (items_db s). \<exists>item. snd p = model_dump_12 item"
  shows "\<forall>p \<in> set (items_db (snd (step_12 s x))). \<exists>item. snd p = model_dump_12 item"
proof (cases x)
  case (Create item)
  have "\<forall>p \<in> set (dict_setitem (items_db s) (item_next_id s) (model_dump_12 item)).
          \<exists>item. snd p = model_dump_12 item"
    using assms by (auto dest!: set_setitem_cases)
  then show ?thesis using Create by (simp add: create_item_12_def Let_def)
next
  case (Delete i)
  then show ?thesis using assms
    by (auto simp: delete_item_12_def dest: set_delitem)
next
  case (Update i item)
  have "\<forall>p \<in> set (dict_setitem (items_db s) i (model_dump_12 item)).
          \<exists>item. snd p = model_dump_12 item"
    using assms by (auto dest!: set_setitem_cases)
  then show ?thesis using Update assms
    by (auto simp: update_item_12_def Let_def split: sum.splits)
qed

lemma stored_dumps_run:
  "\<forall>p \<in> set (items_db s). \<exists>item. snd p = model_dump_12 item \<Longrightarrow>
   \<forall>p \<in> set (items_db (run_12 s xs)). \<exists>item. snd p = model_dump_12 item"
proof (induction xs arbitrary: s)
  case Nil
  then show ?case by simp
next
  case (Cons x xs)
  show ?case using Cons.IH[OF stored_dumps_step[OF Cons.prems, of x]] by simp
qed

lemma update_then_lookup:
  assumes dumps: "\<forall>p \<in> set (items_db s). \<exists>item. snd p = model_dump_12 item"
    and present: "dict_contains (items_db s) i"
  shows "dict_getitem (items_db (snd (update_item_12 s i y))) i = Inr (model_dump_12 y)"
proof -
  obtain stored where g: "dict_getitem (items_db s) i = Inr stored"
    and m: "map_of (items_db s) i = Some stored"
    using dict_getitem_contains[OF present] by blast
  have "(i, stored) \<in> set (items_db s)" using m by (rule map_of_SomeD)
  then obtain x where x: "stored = model_dump_12 x" using dumps by fastforce
  show ?thesis
  proof (cases "dict_eq stored (model_dump_12 y)")
    case True
    then have "stored = model_dump_12 y" using x dict_eq_dumps_12 by simp
    then show ?thesis using present g True by (simp add: update_item_12_def)
  next
    case False
    then show ?thesis using present g
      by (simp add: update_item_12_def Let_def dict_getitem_setitem)
  qed
qed

text \<open>
  C5: in every store that a sequence of requests reaches from the initial store of
  snapshot 12, an update of a present identifier with the payload \<open>y\<close> succeeds, and
  looking the identifier up afterwards gives exactly the dictionary of \<open>y\<close>, whatever
  record was stored before. (The snapshot has no read route; the read is the lookup
  \<open>items_db[item_id]\<close> that the handler itself returns.)
\<close>

theorem update_replaces_record:
  "dict_contains (items_db (run_12 initial_12 ops)) i \<longrightarrow>
     succeeded (fst (update_item_12 (run_12 initial_12 ops) i y)) \<and>
     dict_getitem (items_db (snd (update_item_12 (run_12 initial_12 ops) i y))) i =
       Inr (model_dump_12 y)"
  using update_then_lookup[OF stored_dumps_run[OF stored_dumps_initial]]
    update_item_12_present
  by blast

theorem update_replaces_record_witness:
  "dict_contains (items_db (run_12 initial_12 [Delete 1])) 2 \<and>
   succeeded (fst (update_item_12 (run_12 initial_12 [Delete 1]) 2
      \<lparr>Item_12.name = ''Mouse'', price = Finite 25.5\<rparr>)) \<and>
   dict_getitem (items_db (snd (update_item_12 (run_12 initial_12 [Delete 1]) 2
      \<lparr>Item_12.name = ''Mouse'', price = Finite 25.5\<rparr>))) 2 =
     Inr [(''name'', PyStr ''Mouse''), (''price'', PyFloat (Finite 25.5))]"
proof -
  have present: "dict_contains (items_db (run_12 initial_12 [Delete 1])) 2"
    by (simp add: eval_12)
  show ?thesis
    using present update_replaces_record [of "[Delete 1]" 2
        "\<lparr>Item_12.name = ''Mouse'', price = Finite 25.5\<rparr>"]
    by (simp add: model_dump_12_def)
qed


section \<open>C6: create cannot fail, and a read gives the created record back\<close>

lemma create_item_06_result:
  "create_item_06 db x =
     (Inr (Value (PyDict ((''item_id'', PyInt (int (length db) + 1)) # model_dump_06 x))),
      dict_setitem db (int (length db) + 1) (model_dump_06 x))"
  by (simp add: create_item_06_def Let_def dict_getitem_setitem unpack_item_id_06)

lemma read_item_06_after_setitem:
  "read_item_06 (dict_setitem db i (model_dump_06 x)) i =
     (Inr (Value (PyDict ((''item_id'', PyInt i) # model_dump_06 x))),
      dict_setitem db i (model_dump_06 x))"
  by (simp add: read_item_06_def dict_contains_def keys_setitem dict_getitem_setitem
      unpack_item_id_06)

text \<open>
  C6: in snapshot 06, for every store and every validated item \<open>x\<close>, create returns
  (it raises nothing) the identifier it assigned, one more than the number of stored
  records, together with the dictionary of \<open>x\<close>; and reading that identifier in the
  store that create leaves succeeds with the same identifier and the same dictionary of
  \<open>x\<close>.
\<close>

theorem create_then_read:
  "succeeded (fst (create_item_06 db x)) \<and>
   fst (create_item_06 db x) =
     Inr (Value (PyDict ((''item_id'', PyInt (int (length db) + 1)) # model_dump_06 x))) \<and>
   fst (read_item_06 (snd (create_item_06 db x)) (int (length db) + 1)) =
     Inr (Value (PyDict ((''item_id'', PyInt (int (length db) + 1)) # model_dump_06 x)))"
  by (simp add: create_item_06_result read_item_06_after_setitem succeeded_def)

theorem create_then_read_witness:
  "fst (create_item_06 initial_06
      \<lparr>Item_06.name = ''Keyboard'', description = None, price = Finite 75, tax = None,
       tags = [''input'']\<rparr>) =
     Inr (Value (PyDict [(''item_id'', PyInt 1), (''name'', PyStr ''Keyboard''),
       (''description'', PyNone), (''price'', PyFloat (Finite 75)), (''tax'', PyNone),
       (''tags'', PyList [PyStr ''input''])])) \<and>
   fst (read_item_06 (snd (create_item_06 initial_06
      \<lparr>Item_06.name = ''Keyboard'', description = None, price = Finite 75, tax = None,
       tags = [''input'']\<rparr>)) 1) =
     Inr (Value (PyDict [(''item_id'', PyInt 1), (''name'', PyStr ''Keyboard''),
       (''description'', PyNone), (''price'', PyFloat (Finite 75)), (''tax'', PyNone),
       (''tags'', PyList [PyStr ''input''])]))"
  using create_then_read [of initial_06
      "\<lparr>Item_06.name = ''Keyboard'', description = None, price = Finite 75, tax = None,
       tags = [''input'']\<rparr>"]
  by (simp add: initial_06_def model_dump_06_def)


section \<open>C8: an update that changes nothing\<close>

lemma dict_eq_dump_12_refl: "dict_eq (model_dump_12 item) (model_dump_12 item)"
  by (simp add: dict_eq_def model_dump_12_def)

lemma dict_getitem_Inr_contains: "dict_getitem d k = Inr v \<Longrightarrow> dict_contains d k"
  by (auto simp: dict_getitem_def dict_contains_map_of split: option.splits)

lemma same_value_not_nan: "same_value u v \<Longrightarrow> \<not> is_nan_value v \<Longrightarrow> u = v"
  by (auto simp: same_value_def)

lemma same_fields_dump_12:
  assumes "same_fields stored (model_dump_12 item)" and "\<not> is_nan (Item_12.price item)"
  shows "stored = model_dump_12 item"
proof -
  obtain p q where st: "stored = [p, q]"
    and p: "fst p = ''name''" "same_value (snd p) (PyStr (Item_12.name item))"
    and q: "fst q = ''price''" "same_value (snd q) (PyFloat (Item_12.price item))"
    using assms(1)
    by (auto simp: same_fields_def model_dump_12_def list_all2_Cons2)
  have "snd p = PyStr (Item_12.name item)"
    using p(2) by (rule same_value_not_nan) (simp add: is_nan_value_def)
  moreover have "snd q = PyFloat (Item_12.price item)"
    using q(2) by (rule same_value_not_nan) (simp add: is_nan_value_def assms(2))
  ultimately show ?thesis using st p(1) q(1)
    by (simp add: model_dump_12_def prod_eq_iff)
qed

lemma update_equal_stored:
  assumes "dict_getitem (items_db s) i = Inr (model_dump_12 item)"
  shows "put_items_12 s i item = (\<lparr>status_code = 304, content = None\<rparr>, s)"
proof -
  have "dict_contains (items_db s) i" using assms by (rule dict_getitem_Inr_contains)
  then have "update_item_12 s i item = (Inr (Direct \<lparr>status_code = 304, content = None\<rparr>), s)"
    using assms by (simp add: update_item_12_def dict_eq_dump_12_refl)
  then show ?thesis by (simp add: put_items_12_def)
qed

text \<open>
  C8, as stated, fails on snapshot 12, whose \<open>price: float\<close> is unconstrained: when the
  stored price and the price of the payload are NaN held in two float objects, the two
  records are field for field identical, yet \<open>==\<close> is false, the handler takes the
  replacing branch and returns the record, not a 304.
\<close>

theorem unchanged_update_counterexample:
  "dict_getitem
     (items_db (snd (create_item_12 initial_12 \<lparr>Item_12.name = ''Probe'', price = NaN 0\<rparr>))) 3 =
     Inr [(''name'', PyStr ''Probe''), (''price'', PyFloat (NaN 0))] \<and>
   same_fields [(''name'', PyStr ''Probe''), (''price'', PyFloat (NaN 0))]
     (model_dump_12 \<lparr>Item_12.name = ''Probe'', price = NaN 1\<rparr>) \<and>
   fst (update_item_12
          (snd (create_item_12 initial_12 \<lparr>Item_12.name = ''Probe'', price = NaN 0\<rparr>)) 3
          \<lparr>Item_12.name = ''Probe'', price = NaN 1\<rparr>) =
     Inr (Value (PyDict [(''name'', PyStr ''Probe''), (''price'', PyFloat (NaN 1))])) \<and>
   status_code (fst (put_items_12
          (snd (create_item_12 initial_12 \<lparr>Item_12.name = ''Probe'', price = NaN 0\<rparr>)) 3
          \<lparr>Item_12.name = ''Probe'', price = NaN 1\<rparr>)) \<noteq> 304"
  by (simp add: eval_12 put_items_12_def same_fields_def same_value_def is_nan_value_def
      is_nan_def)

text \<open>
  C8, amended: in snapshot 12, when the record stored under an identifier is, field for
  field, the dictionary of the payload and the price is not a NaN (or, for a NaN, when
  the payload holds the very float object that the store holds), the update route
  answers with status 304 and no body, and the store it leaves, mapping and counter, is
  the store it was given.
\<close>

theorem unchanged_update:
  "(dict_getitem (items_db s) i = Inr stored \<and> same_fields stored (model_dump_12 item) \<and>
      \<not> is_nan (Item_12.price item) \<longrightarrow>
      put_items_12 s i item = (\<lparr>status_code = 304, content = None\<rparr>, s)) \<and>
   (dict_getitem (items_db s) i = Inr (model_dump_12 item) \<longrightarrow>
      put_items_12 s i item = (\<lparr>status_code = 304, content = None\<rparr>, s))"
  using same_fields_dump_12[of stored item] update_equal_stored[of s i item] by blast

theorem unchanged_update_witness:
  "dict_getitem (items_db initial_12) 2 =
     Inr [(''name'', PyStr ''Keyboard''), (''price'', PyFloat (Finite 75))] \<and>
   same_fields [(''name'', PyStr ''Keyboard''), (''price'', PyFloat (Finite 75))]
     (model_dump_12 \<lparr>Item_12.name = ''Keyboard'', price = Finite 75\<rparr>) \<and>
   \<not> is_nan (Item_12.price \<lparr>Item_12.name = ''Keyboard'', price = Finite 75\<rparr>) \<and>
   put_items_12 initial_12 2 \<lparr>Item_12.name = ''Keyboard'', price = Finite 75\<rparr> =
     (\<lparr>status_code = 304, content = None\<rparr>, initial_12)"
proof -
  let ?stored = "[(''name'', PyStr ''Keyboard''), (''price'', PyFloat (Finite 75))]"
  let ?item = "\<lparr>Item_12.name = ''Keyboard'', price = Finite 75\<rparr>"
  have g: "dict_getitem (items_db initial_12) 2 = Inr ?stored"
    by (simp add: dict_getitem_def initial_12_def)
  have f: "same_fields ?stored (model_dump_12 ?item)"
    by (simp add: same_fields_def same_value_def model_dump_12_def)
  have n: "\<not> is_nan (Item_12.price ?item)"
    by (simp add: is_nan_def)
  show ?thesis
    using g f n unchanged_update [of initial_12 2 ?stored ?item] by blast
qed


section \<open>C10: creating a user under a name that is taken\<close>

lemma keep_fields_UserOut:
  "keep_fields UserOut_fields (UserIn_attributes u) =
     [(''username'', PyStr (username u)), (''email'', PyStr (email u)),
      (''full_name'', (case full_name u of None \<Rightarrow> PyNone | Some n \<Rightarrow> PyStr n))]"
  by (simp add: keep_fields_def UserOut_fields_def UserIn_attributes_def
      List.map_filter_simps)

lemma post_users_10_result:
  "post_users_10 s u =
     (\<lparr>status_code = 201,
       content = Some (PyDict (keep_fields UserOut_fields (UserIn_attributes u)))\<rparr>,
      s\<lparr>fake_users_db := dict_setitem (fake_users_db s) (username u) u\<rparr>)"
  by (simp add: post_users_10_def create_user_def user_value_def)

text \<open>
  C10: in snapshot 10, creating a user whose name is already a key of the user store
  raises nothing: the route answers 201 with the projection of the new payload, the
  record stored under that name becomes the new payload (its password included), no
  entry is added and the item store is left alone.
\<close>

theorem create_user_overwrites:
  "dict_contains (fake_users_db s) (username u) \<longrightarrow>
     fst (create_user s u) = Inr u \<and>
     fst (post_users_10 s u) =
       \<lparr>status_code = 201,
        content = Some (PyDict
          [(''username'', PyStr (username u)), (''email'', PyStr (email u)),
           (''full_name'', (case full_name u of None \<Rightarrow> PyNone | Some n \<Rightarrow> PyStr n))])\<rparr> \<and>
     dict_getitem (fake_users_db (snd (post_users_10 s u))) (username u) = Inr u \<and>
     length (fake_users_db (snd (post_users_10 s u))) = length (fake_users_db s) \<and>
     fake_items_db (snd (post_users_10 s u)) = fake_items_db s"
  by (simp add: post_users_10_result keep_fields_UserOut dict_getitem_setitem
      length_setitem_old dict_contains_def create_user_def)

theorem create_user_overwrites_witness:
  "dict_contains
     (fake_users_db (snd (post_users_10 initial_10
        \<lparr>username = ''alice'', password = ''first'', email = ''a@x.org'', full_name = None\<rparr>)))
     ''alice'' \<and>
   post_users_10
     (snd (post_users_10 initial_10
        \<lparr>username = ''alice'', password = ''first'', email = ''a@x.org'', full_name = None\<rparr>))
     \<lparr>username = ''alice'', password = ''second'', email = ''b@x.org'', full_name = Some ''Al''\<rparr> =
     (\<lparr>status_code = 201,
       content = Some (PyDict [(''username'', PyStr ''alice''), (''email'', PyStr ''b@x.org''),
         (''full_name'', PyStr ''Al'')])\<rparr>,
      \<lparr>fake_users_db =
         [(''alice'',
           \<lparr>username = ''alice'', password = ''second'', email = ''b@x.org'',
            full_name = Some ''Al''\<rparr>)],
       fake_items_db = fake_items_db initial_10\<rparr>)"
proof -
  let ?a = "\<lparr>username = ''alice'', password = ''first'', email = ''a@x.org'', full_name = None\<rparr>"
  let ?b = "\<lparr>username = ''alice'', password = ''second'', email = ''b@x.org'',
             full_name = Some ''Al''\<rparr>"
  let ?s = "snd (post_users_10 initial_10 ?a)"
  have s: "?s = \<lparr>fake_users_db = [(''alice'', ?a)], fake_items_db = fake_items_db initial_10\<rparr>"
    by (simp add: post_users_10_result initial_10_def dict_setitem_def)
  have present: "dict_contains (fake_users_db ?s) (username ?b)"
    by (simp add: s dict_contains_def)
  have r: "fst (post_users_10 ?s ?b) =
       \<lparr>status_code = 201,
        content = Some (PyDict [(''username'', PyStr ''alice''), (''email'', PyStr ''b@x.org''),
         (''full_name'', PyStr ''Al'')])\<rparr>"
    using create_user_overwrites [of ?s ?b] present by simp
  have "snd (post_users_10 ?s ?b) =
      \<lparr>fake_users_db = [(''alice'', ?b)], fake_items_db = fake_items_db initial_10\<rparr>"
    by (simp add: post_users_10_result initial_10_def dict_setitem_def)
  then show ?thesis using present r by (simp add: prod_eq_iff)
qed


section \<open>C7: the projection never shows an internal-only field\<close>

lemma keep_fields_keys: "set (map fst (keep_fields names d)) \<subseteq> set names"
  by (induction names) (auto simp: keep_fields_def List.map_filter_simps split: option.splits)

lemma content_keys_exception:
  "set (content_keys (serialize_response code rm (Inl e))) \<subseteq> {''detail''}"
  by (cases e) simp_all

lemma content_keys_model:
  "set (content_keys (serialize_response code (Model names) (Inr (Value (PyDict d)))))
     \<subseteq> set names"
  using keep_fields_keys[of names d] by simp

lemma content_keys_list_model:
  "set (content_keys (serialize_response code (ListOf names)
      (Inr (Value (PyList (map (\<lambda>i. PyDict (f i)) xs)))))) \<subseteq> set names"
  using keep_fields_keys[of names] by (auto simp: comp_def)

lemma content_keys_post_users:
  "set (content_keys (fst (post_users_10 s u))) \<subseteq> set UserOut_fields"
  using content_keys_model[of 201 UserOut_fields "UserIn_attributes u"]
  by (simp add: post_users_10_def create_user_def user_value_def)

lemma content_keys_get_user:
  "set (content_keys (fst (get_user_10 s n))) \<subseteq> set UserOut_fields \<union> {''detail''}"
proof -
  have r: "fst (get_user_10 s n) =
      serialize_response 200 (Model UserOut_fields) (map_sum id user_value (fst (read_user s n)))"
    by (simp add: get_user_10_def split: prod.splits)
  show ?thesis
  proof (cases "fst (read_user s n)")
    case (Inl e)
    then have "fst (get_user_10 s n) = serialize_response 200 (Model UserOut_fields) (Inl e)"
      using r by simp
    then show ?thesis using content_keys_exception[of 200 "Model UserOut_fields" e]
      by (simp only:) blast
  next
    case (Inr u)
    then have "fst (get_user_10 s n) =
        serialize_response 200 (Model UserOut_fields) (Inr (Value (PyDict (UserIn_attributes u))))"
      using r by (simp add: user_value_def)
    then show ?thesis using content_keys_model[of 200 UserOut_fields "UserIn_attributes u"]
      by (simp only:) blast
  qed
qed

lemma content_keys_get_items:
  "set (content_keys (fst (get_items_10 s))) \<subseteq> set ItemPublic_fields"
  using content_keys_list_model[of 200 ItemPublic_fields ItemInternal_attributes
      "dict_values (fake_items_db s)"]
  by (simp add: get_items_10_def read_items_def items_value_def)

lemma content_keys_get_item:
  "set (content_keys (fst (get_item_10 s i))) \<subseteq> set ItemPublic_fields \<union> {''detail''}"
proof -
  have r: "fst (get_item_10 s i) =
      serialize_response 200 (Model ItemPublic_fields)
        (map_sum id item_value (fst (read_single_item s i)))"
    by (simp add: get_item_10_def split: prod.splits)
  show ?thesis
  proof (cases "fst (read_single_item s i)")
    case (Inl e)
    then have "fst (get_item_10 s i) = serialize_response 200 (Model ItemPublic_fields) (Inl e)"
      using r by simp
    then show ?thesis using content_keys_exception[of 200 "Model ItemPublic_fields" e]
      by (simp only:) blast
  next
    case (Inr x)
    then have "fst (get_item_10 s i) =
        serialize_response 200 (Model ItemPublic_fields)
          (Inr (Value (PyDict (ItemInternal_attributes x))))"
      using r by (simp add: item_value_def)
    then show ?thesis
      using content_keys_model[of 200 ItemPublic_fields "ItemInternal_attributes x"]
      by (simp only:) blast
  qed
qed

lemma disjoint_from_subset: "A \<subseteq> B \<Longrightarrow> I \<inter> B = {} \<Longrightarrow> A \<inter> I = {}"
  by blast

lemma internal_only_not_public:
  "set internal_only_fields \<inter> (set UserOut_fields \<union> {''detail''}) = {}"
  "set internal_only_fields \<inter> (set ItemPublic_fields \<union> {''detail''}) = {}"
  by (simp_all add: internal_only_fields_def UserOut_fields_def ItemPublic_fields_def)

text \<open>
  C7: in snapshot 10, whose stored users carry a password and whose stored items carry an
  owner identifier and a secret code, the body of the response of every route that
  returns a record (create user, read user, list items, read item) has none of the keys
  \<open>password\<close>, \<open>owner_id\<close>, \<open>secret_code\<close>, whatever the store holds and whatever
  is asked; the keys of a body are the declared fields of the route's output model, or
  \<open>detail\<close> for a 404.
\<close>

theorem projection_hides_internal:
  "set (content_keys (fst (post_users_10 s u))) \<inter> set internal_only_fields = {} \<and>
   set (content_keys (fst (get_user_10 s n))) \<inter> set internal_only_fields = {} \<and>
   set (content_keys (fst (get_items_10 s))) \<inter> set internal_only_fields = {} \<and>
   set (content_keys (fst (get_item_10 s i))) \<inter> set internal_only_fields = {}"
proof -
  have "set (content_keys (fst (post_users_10 s u))) \<subseteq> set UserOut_fields \<union> {''detail''}"
    using content_keys_post_users[of s u] by blast
  then have a: "set (content_keys (fst (post_users_10 s u))) \<inter> set internal_only_fields = {}"
    using internal_only_not_public(1) by (rule disjoint_from_subset)
  have b: "set (content_keys (fst (get_user_10 s n))) \<inter> set internal_only_fields = {}"
    using content_keys_get_user internal_only_not_public(1) by (rule disjoint_from_subset)
  have "set (content_keys (fst (get_items_10 s))) \<subseteq> set ItemPublic_fields \<union> {''detail''}"
    using content_keys_get_items[of s] by blast
  then have c: "set (content_keys (fst (get_items_10 s))) \<inter> set internal_only_fields = {}"
    using internal_only_not_public(2) by (rule disjoint_from_subset)
  have d: "set (content_keys (fst (get_item_10 s i))) \<inter> set internal_only_fields = {}"
    using content_keys_get_item internal_only_not_public(2) by (rule disjoint_from_subset)
  show ?thesis using a b c d by (simp only: simp_thms)
qed

theorem projection_hides_internal_witness:
  "''password'' \<in> fst ` set (UserIn_attributes
      \<lparr>username = ''alice'', password = ''pw'', email = ''a@x.org'', full_name = None\<rparr>) \<and>
   set (content_keys (fst (post_users_10 initial_10
      \<lparr>username = ''alice'', password = ''pw'', email = ''a@x.org'', full_name = None\<rparr>)))
     \<inter> set internal_only_fields = {} \<and>
   content_keys (fst (get_items_10 initial_10)) =
     [''name'', ''price'', ''name'', ''price'', ''name'', ''price''] \<and>
   set (content_keys (fst (get_items_10 initial_10))) \<inter> set internal_only_fields = {} \<and>
   fst (get_item_10 initial_10 1) =
     \<lparr>status_code = 200,
      content = Some (PyDict [(''name'', PyStr ''Keyboard''), (''price'', PyFloat (Finite 75))])\<rparr> \<and>
   set (content_keys (fst (get_item_10 initial_10 1))) \<inter> set internal_only_fields = {}"
proof -
  have a: "''password'' \<in> fst ` set (UserIn_attributes
      \<lparr>username = ''alice'', password = ''pw'', email = ''a@x.org'', full_name = None\<rparr>)"
    by (simp add: UserIn_attributes_def)
  have b: "content_keys (fst (get_items_10 initial_10)) =
     [''name'', ''price'', ''name'', ''price'', ''name'', ''price'']"
    by (simp add: get_items_10_def read_items_def items_value_def initial_10_def
        dict_values_def ItemInternal_attributes_def keep_fields_def ItemPublic_fields_def
        List.map_filter_simps)
  have c: "fst (get_item_10 initial_10 1) =
     \<lparr>status_code = 200,
      content = Some (PyDict [(''name'', PyStr ''Keyboard''), (''price'', PyFloat (Finite 75))])\<rparr>"
    by (simp add: get_item_10_def read_single_item_def item_value_def initial_10_def
        dict_contains_def dict_getitem_def ItemInternal_attributes_def keep_fields_def
        ItemPublic_fields_def List.map_filter_simps)
  note t = projection_hides_internal [of initial_10
        "\<lparr>username = ''alice'', password = ''pw'', email = ''a@x.org'', full_name = None\<rparr>"
        "''alice''" 1]
  show ?thesis
    apply (intro conjI)
         apply (rule a)
        apply (rule t[THEN conjunct1])
       apply (rule b)
      apply (rule t[THEN conjunct2, THEN conjunct2, THEN conjunct1])
     apply (rule c)
    apply (rule t[THEN conjunct2, THEN conjunct2, THEN conjunct2])
    done
qed

end
